theory Spec2Isabelle
  imports Complex_Main
begin

section \<open>Data model\<close>

text \<open>
  \<^verbatim>\<open>models/enums.py\<close>: the enum \<^verbatim>\<open>ControlState\<close> with its three members.
\<close>

datatype ControlState = NEUTRAL | LEFT_CLICK | RIGHT_CLICK

text \<open>
  Python floats that the modelled code only compares, copies or takes the minimum of are
  modelled as reals: on finite floats these operations are exact. The thresholds
  \<^verbatim>\<open>60.0\<close>, \<^verbatim>\<open>90.0\<close>, \<^verbatim>\<open>2.0\<close> and the sums \<^verbatim>\<open>60.0 + 2.0\<close>, \<^verbatim>\<open>90.0 - 2.0\<close> are exact
  in binary floating point as well.
\<close>

section \<open>The state classifier (utils/angle\_calculator.py)\<close>

text \<open>
  \<^verbatim>\<open>AngleCalculator\<close> has one attribute, \<^verbatim>\<open>_last_state: Optional[ControlState]\<close>,
  set to \<^verbatim>\<open>None\<close> by \<^verbatim>\<open>__init__\<close>.
\<close>

record AngleCalculator =
  last_state :: "ControlState option"

definition RIGHT_CLICK_THRESHOLD :: real where
  "RIGHT_CLICK_THRESHOLD = 60"

definition LEFT_CLICK_THRESHOLD :: real where
  "LEFT_CLICK_THRESHOLD = 90"

definition HYSTERESIS_MARGIN :: real where
  "HYSTERESIS_MARGIN = 2"

definition AngleCalculator_init :: AngleCalculator where
  "AngleCalculator_init = \<lparr>last_state = None\<rparr>"

text \<open>
  \<^verbatim>\<open>get_control_state(self, angle)\<close>: the two threshold selections, the
  \<^verbatim>\<open>if/elif/else\<close> chain in the source's order, then the assignment to
  \<^verbatim>\<open>self._last_state\<close>. The result is the returned state and the updated object.
  The method is defined on every object that has the attribute, whatever else the object
  holds (a record scheme), as a Python method is.
\<close>

definition get_control_state ::
  "'a AngleCalculator_scheme \<Rightarrow> real \<Rightarrow> ControlState \<times> 'a AngleCalculator_scheme" where
  "get_control_state self angle =
     (let right_threshold =
            (if last_state self = Some RIGHT_CLICK
             then RIGHT_CLICK_THRESHOLD + HYSTERESIS_MARGIN
             else RIGHT_CLICK_THRESHOLD);
          left_threshold =
            (if last_state self = Some LEFT_CLICK
             then LEFT_CLICK_THRESHOLD - HYSTERESIS_MARGIN
             else LEFT_CLICK_THRESHOLD);
          new_state =
            (if angle < right_threshold then RIGHT_CLICK
             else if angle > left_threshold then LEFT_CLICK
             else NEUTRAL)
      in (new_state, self\<lparr>last_state := Some new_state\<rparr>))"

definition is_angle_valid :: "real \<Rightarrow> bool" where
  "is_angle_valid angle = (0 \<le> angle \<and> angle \<le> 180)"

definition reset_state :: "AngleCalculator \<Rightarrow> AngleCalculator" where
  "reset_state self = self\<lparr>last_state := None\<rparr>"

text \<open>
  Successive calls of \<^verbatim>\<open>get_control_state\<close> on one object, as a caller feeding a
  sequence of samples makes them; the returned states are collected in order.
\<close>

fun classify_samples :: "AngleCalculator \<Rightarrow> real list \<Rightarrow> ControlState list" where
  "classify_samples self [] = []"
| "classify_samples self (angle # rest) =
     (case get_control_state self angle of
        (s, self') \<Rightarrow> s # classify_samples self' rest)"

section \<open>The injection adapter (controllers/mouse\_controller.py)\<close>

text \<open>
  The exceptions the modelled code raises or catches: \<^verbatim>\<open>ValueError\<close>,
  \<^verbatim>\<open>MouseControlError\<close>, whatever a PyAutoGUI call raises, and whatever else than
  \<^verbatim>\<open>ValueError\<close> a drawing or display call raises.
\<close>

datatype exn = ValueError | MouseControlError | PyAutoGUIException | DisplayError

text \<open>
  PyAutoGUI is the outside world. Its model records every \<^verbatim>\<open>mouseUp\<close> and
  \<^verbatim>\<open>mouseDown\<close> call made, in order, and decides from the number of calls made so far
  whether the next call raises; any behaviour of the library is some such function.
\<close>

datatype button = Left_button | Right_button

datatype mouse_call = mouseUp button | mouseDown button

record Pyautogui =
  calls :: "mouse_call list"
  raises :: "nat \<Rightarrow> bool"

text \<open>One library call: it is recorded, and the flag returned says whether it raised.\<close>

definition pyautogui_call :: "mouse_call \<Rightarrow> Pyautogui \<Rightarrow> bool \<times> Pyautogui" where
  "pyautogui_call c p = (raises p (length (calls p)), p\<lparr>calls := calls p @ [c]\<rparr>)"

text \<open>
  \<^verbatim>\<open>MouseController\<close>: the attributes \<^verbatim>\<open>_current_state\<close>, \<^verbatim>\<open>_error_count\<close> and
  \<^verbatim>\<open>_max_errors\<close> (field names cannot start with an underscore here).
\<close>

record MouseController =
  mc_current_state :: ControlState
  mc_error_count :: int
  mc_max_errors :: int

definition MouseController_init :: MouseController where
  "MouseController_init = \<lparr>mc_current_state = NEUTRAL, mc_error_count = 0, mc_max_errors = 5\<rparr>"

text \<open>
  \<^verbatim>\<open>_transition_to_state\<close>: release the button currently held, then press the new
  one. A call that raises ends the method, so the second call is not made then.
  The flag returned says whether the method raised.
\<close>

definition transition_to_state ::
  "MouseController \<Rightarrow> ControlState \<Rightarrow> Pyautogui \<Rightarrow> bool \<times> Pyautogui" where
  "transition_to_state self new_state p =
     (case (if mc_current_state self = LEFT_CLICK then pyautogui_call (mouseUp Left_button) p
            else if mc_current_state self = RIGHT_CLICK then pyautogui_call (mouseUp Right_button) p
            else (False, p)) of
        (raised, p1) \<Rightarrow>
          if raised then (True, p1)
          else if new_state = LEFT_CLICK then pyautogui_call (mouseDown Left_button) p1
          else if new_state = RIGHT_CLICK then pyautogui_call (mouseDown Right_button) p1
          else (False, p1))"

text \<open>
  \<^verbatim>\<open>set_state\<close>. The \<^verbatim>\<open>isinstance\<close> check cannot fail on a \<^typ>\<open>ControlState\<close>.
  An equal state returns at once. Otherwise the transition runs inside \<^verbatim>\<open>try\<close>: on
  success the state is stored and the counter cleared; on an exception the counter is
  incremented and \<^verbatim>\<open>MouseControlError\<close> is raised only when it has reached
  \<^verbatim>\<open>_max_errors\<close>, the method returning normally otherwise.
\<close>

definition set_state ::
  "MouseController \<Rightarrow> ControlState \<Rightarrow> Pyautogui \<Rightarrow> (exn + unit) \<times> MouseController \<times> Pyautogui" where
  "set_state self state p =
     (if state = mc_current_state self then (Inr (), self, p)
      else
        (case transition_to_state self state p of
           (raised, p') \<Rightarrow>
             if \<not> raised
             then (Inr (), self\<lparr>mc_current_state := state, mc_error_count := 0\<rparr>, p')
             else
               (let self' = self\<lparr>mc_error_count := mc_error_count self + 1\<rparr>
                in if mc_error_count self' \<ge> mc_max_errors self'
                   then (Inl MouseControlError, self', p')
                   else (Inr (), self', p'))))"

text \<open>
  \<^verbatim>\<open>release_all\<close>: both buttons are released inside \<^verbatim>\<open>try\<close>; an exception is logged
  and leaves the attributes as they were.
\<close>

definition release_all :: "MouseController \<Rightarrow> Pyautogui \<Rightarrow> MouseController \<times> Pyautogui" where
  "release_all self p =
     (case pyautogui_call (mouseUp Left_button) p of
        (raised1, p1) \<Rightarrow>
          if raised1 then (self, p1)
          else
            (case pyautogui_call (mouseUp Right_button) p1 of
               (raised2, p2) \<Rightarrow>
                 if raised2 then (self, p2)
                 else (self\<lparr>mc_current_state := NEUTRAL, mc_error_count := 0\<rparr>, p2)))"

definition is_healthy :: "MouseController \<Rightarrow> bool" where
  "is_healthy self = (mc_error_count self < mc_max_errors self)"

definition reset_error_count :: "MouseController \<Rightarrow> MouseController" where
  "reset_error_count self = self\<lparr>mc_error_count := 0\<rparr>"

section \<open>Arm keypoint extraction (controllers/pose\_detector.py, models/data\_models.py)\<close>

text \<open>
  \<^verbatim>\<open>Point\<close> and \<^verbatim>\<open>ArmKeypoints\<close> of \<^verbatim>\<open>data_models.py\<close>, and a pose landmark as the
  detector reads it: the attributes \<^verbatim>\<open>x\<close>, \<^verbatim>\<open>y\<close>, \<^verbatim>\<open>z\<close> and \<^verbatim>\<open>visibility\<close>.
  The coordinate fields carry a prefix, since \<open>x\<close>, \<open>y\<close>, \<open>z\<close> are wanted as variables.
\<close>

record Point =
  point_x :: real
  point_y :: real
  point_z :: real

record ArmKeypoints =
  shoulder :: Point
  elbow :: Point
  wrist :: Point
  confidence :: real

record Landmark =
  lm_x :: real
  lm_y :: real
  lm_z :: real
  visibility :: real

text \<open>
  \<^verbatim>\<open>ArmKeypoints.__post_init__\<close>: the type checks hold for values of these types; a
  confidence outside \<open>[0, 1]\<close> raises \<^verbatim>\<open>ValueError\<close>.
\<close>

definition ArmKeypoints_init :: "Point \<Rightarrow> Point \<Rightarrow> Point \<Rightarrow> real \<Rightarrow> exn + ArmKeypoints" where
  "ArmKeypoints_init s e w c =
     (if \<not> (0 \<le> c \<and> c \<le> 1) then Inl ValueError
      else Inr \<lparr>shoulder = s, elbow = e, wrist = w, confidence = c\<rparr>)"

text \<open>\<^verbatim>\<open>Point(x=lm.x, y=lm.y, z=lm.z)\<close>; its type checks hold for floats.\<close>

definition Point_of :: "Landmark \<Rightarrow> Point" where
  "Point_of lm = \<lparr>point_x = lm_x lm, point_y = lm_y lm, point_z = lm_z lm\<rparr>"

text \<open>
  \<^verbatim>\<open>PoseDetector\<close>: of its attributes only \<^verbatim>\<open>confidence_threshold\<close> takes part in
  the extraction.
\<close>

record PoseDetector =
  confidence_threshold :: real

definition LEFT_SHOULDER :: nat where "LEFT_SHOULDER = 11"
definition LEFT_ELBOW :: nat where "LEFT_ELBOW = 13"
definition LEFT_WRIST :: nat where "LEFT_WRIST = 15"
definition RIGHT_SHOULDER :: nat where "RIGHT_SHOULDER = 12"
definition RIGHT_ELBOW :: nat where "RIGHT_ELBOW = 14"
definition RIGHT_WRIST :: nat where "RIGHT_WRIST = 16"

text \<open>
  \<^verbatim>\<open>_extract_arm_keypoints\<close>. The length check comes first, so the three reads are
  in range and the \<^verbatim>\<open>except (AttributeError, IndexError)\<close> clause is never entered;
  a \<^verbatim>\<open>ValueError\<close> from the \<^verbatim>\<open>ArmKeypoints\<close> constructor is not caught by it.
\<close>

definition extract_arm_keypoints ::
  "PoseDetector \<Rightarrow> Landmark list \<Rightarrow> nat \<Rightarrow> nat \<Rightarrow> nat \<Rightarrow> exn + ArmKeypoints option" where
  "extract_arm_keypoints self landmark_list shoulder_idx elbow_idx wrist_idx =
     (let max_idx = max shoulder_idx (max elbow_idx wrist_idx)
      in if length landmark_list \<le> max_idx then Inr None
         else
           (let shoulder_lm = landmark_list ! shoulder_idx;
                elbow_lm = landmark_list ! elbow_idx;
                wrist_lm = landmark_list ! wrist_idx;
                min_confidence =
                  min (visibility shoulder_lm) (min (visibility elbow_lm) (visibility wrist_lm))
            in if min_confidence < confidence_threshold self then Inr None
               else
                 (case ArmKeypoints_init (Point_of shoulder_lm) (Point_of elbow_lm)
                         (Point_of wrist_lm) min_confidence of
                    Inl e \<Rightarrow> Inl e
                  | Inr arm \<Rightarrow> Inr (Some arm))))"

text \<open>
  \<^verbatim>\<open>get_arm_keypoints\<close>. An empty landmark list raises \<^verbatim>\<open>ValueError\<close> before the
  \<^verbatim>\<open>try\<close>; inside it the left arm is tried first, then the right arm. The
  \<^verbatim>\<open>except (IndexError, AttributeError)\<close> clause does not catch a \<^verbatim>\<open>ValueError\<close>.
\<close>

definition get_arm_keypoints :: "PoseDetector \<Rightarrow> Landmark list \<Rightarrow> exn + ArmKeypoints option" where
  "get_arm_keypoints self landmarks =
     (if landmarks = [] then Inl ValueError
      else
        (case extract_arm_keypoints self landmarks LEFT_SHOULDER LEFT_ELBOW LEFT_WRIST of
           Inl e \<Rightarrow> Inl e
         | Inr left_arm \<Rightarrow>
             if (case left_arm of None \<Rightarrow> False
                 | Some arm \<Rightarrow> confidence arm \<ge> confidence_threshold self)
             then Inr left_arm
             else
               (case extract_arm_keypoints self landmarks RIGHT_SHOULDER RIGHT_ELBOW RIGHT_WRIST of
                  Inl e \<Rightarrow> Inl e
                | Inr right_arm \<Rightarrow>
                    if (case right_arm of None \<Rightarrow> False
                        | Some arm \<Rightarrow> confidence arm \<ge> confidence_threshold self)
                    then Inr right_arm
                    else Inr None)))"

text \<open>
  The arm a triple of indices denotes, in the words of the specification: the three
  points and the minimum of their three confidences.
\<close>

definition min_point_confidence :: "Landmark list \<Rightarrow> nat \<Rightarrow> nat \<Rightarrow> nat \<Rightarrow> real" where
  "min_point_confidence lms si ei wi =
     min (visibility (lms ! si)) (min (visibility (lms ! ei)) (visibility (lms ! wi)))"

definition arm_at :: "Landmark list \<Rightarrow> nat \<Rightarrow> nat \<Rightarrow> nat \<Rightarrow> ArmKeypoints" where
  "arm_at lms si ei wi =
     \<lparr>shoulder = Point_of (lms ! si), elbow = Point_of (lms ! ei), wrist = Point_of (lms ! wi),
      confidence = min_point_confidence lms si ei wi\<rparr>"

section \<open>The control loop (controllers/application\_controller.py)\<close>

text \<open>\<^verbatim>\<open>SystemState\<close> of \<^verbatim>\<open>data_models.py\<close>.\<close>

record SystemState =
  pose_control_enabled :: bool
  current_control_state :: ControlState
  last_valid_angle :: "real option"
  error_count :: int

definition SystemState_init :: SystemState where
  "SystemState_init =
     \<lparr>pose_control_enabled = True, current_control_state = NEUTRAL,
      last_valid_angle = None, error_count = 0\<rparr>"

text \<open>
  \<^verbatim>\<open>ApplicationController\<close> after \<^verbatim>\<open>initialize\<close>: the system state, the components
  that hold state of their own, the \<^verbatim>\<open>_running\<close> flag, and the PyAutoGUI world the
  mouse controller acts on. The camera and the display hold no state the loop reads back.
\<close>

record ApplicationController =
  system_state :: SystemState
  pose_detector :: PoseDetector
  mouse_controller :: MouseController
  angle_calculator :: AngleCalculator
  running :: bool
  pyautogui :: Pyautogui

text \<open>
  \<^verbatim>\<open>_update_mouse_control\<close>: \<^verbatim>\<open>set_state\<close> inside \<^verbatim>\<open>try\<close>; when it returns, the
  state is stored and the counter cleared; when it raises, the counter is incremented
  and pose control is switched off once the counter exceeds 5.
\<close>

definition update_mouse_control :: "ApplicationController \<Rightarrow> ControlState \<Rightarrow> ApplicationController" where
  "update_mouse_control self control_state =
     (case set_state (mouse_controller self) control_state (pyautogui self) of
        (res, m', p') \<Rightarrow>
          (case res of
             Inr u \<Rightarrow>
               self\<lparr>mouse_controller := m', pyautogui := p',
                    system_state := (system_state self)
                      \<lparr>current_control_state := control_state, error_count := 0\<rparr>\<rparr>
           | Inl e \<Rightarrow>
               (let ss = (system_state self)\<lparr>error_count := error_count (system_state self) + 1\<rparr>
                in self\<lparr>mouse_controller := m', pyautogui := p',
                        system_state :=
                          (if error_count ss > 5 then ss\<lparr>pose_control_enabled := False\<rparr>
                           else ss)\<rparr>)))"

text \<open>
  \<^verbatim>\<open>_set_neutral_state\<close>: nothing when the stored state is already NEUTRAL; otherwise
  \<^verbatim>\<open>set_state(NEUTRAL)\<close> inside \<^verbatim>\<open>try\<close>, the stored state changing only when the
  call returns.
\<close>

definition set_neutral_state :: "ApplicationController \<Rightarrow> ApplicationController" where
  "set_neutral_state self =
     (if current_control_state (system_state self) \<noteq> NEUTRAL
      then
        (case set_state (mouse_controller self) NEUTRAL (pyautogui self) of
           (res, m', p') \<Rightarrow>
             (case res of
                Inr u \<Rightarrow>
                  self\<lparr>mouse_controller := m', pyautogui := p',
                       system_state := (system_state self)\<lparr>current_control_state := NEUTRAL\<rparr>\<rparr>
              | Inl e \<Rightarrow> self\<lparr>mouse_controller := m', pyautogui := p'\<rparr>))
      else self)"

text \<open>
  What the collaborators do with one captured frame: what \<^verbatim>\<open>detect_pose\<close> returns
  for it (\<^verbatim>\<open>None\<close> when no pose is detected), the exception, if any, that
  \<^verbatim>\<open>draw_pose_overlay\<close> or \<^verbatim>\<open>draw_angle_info\<close> raises on it, and the exception, if any,
  that \<^verbatim>\<open>draw_control_state_indicator\<close> or \<^verbatim>\<open>show_frame\<close> raises on it.
\<close>

record Frame =
  frame_landmarks :: "Landmark list option"
  overlay_raises :: "exn option"
  show_raises :: "exn option"

text \<open>
  \<^verbatim>\<open>_process_pose_detection\<close>. The angle engine \<^verbatim>\<open>calculate_elbow_angle\<close> computes in
  floating point and is a parameter: it returns an angle or raises. The result is the
  exception that leaves the method, if any, and the controller as the method leaves it.
  \<^verbatim>\<open>get_arm_keypoints\<close> is called outside the \<^verbatim>\<open>try\<close>, so its exception leaves the
  method, before any attribute is written. Inside the \<^verbatim>\<open>try\<close> only \<^verbatim>\<open>ValueError\<close> is
  caught, whether the angle engine raises it or, after the classification and the mouse
  update, a drawing call; any other exception leaves the method.
\<close>

definition process_pose_detection ::
  "(Point \<Rightarrow> Point \<Rightarrow> Point \<Rightarrow> exn + real) \<Rightarrow> ApplicationController \<Rightarrow> Landmark list option
     \<Rightarrow> exn option \<Rightarrow> exn option \<times> ApplicationController" where
  "process_pose_detection calculate_elbow_angle self landmarks overlay =
     (case landmarks of
        None \<Rightarrow> (None, set_neutral_state self)
      | Some lms \<Rightarrow>
          (case get_arm_keypoints (pose_detector self) lms of
             Inl e \<Rightarrow> (Some e, self)
           | Inr None \<Rightarrow> (None, set_neutral_state self)
           | Inr (Some arm_keypoints) \<Rightarrow>
               (case calculate_elbow_angle (shoulder arm_keypoints) (elbow arm_keypoints)
                       (wrist arm_keypoints) of
                  Inl e \<Rightarrow> if e = ValueError then (None, set_neutral_state self) else (Some e, self)
                | Inr angle \<Rightarrow>
                    if is_angle_valid angle
                    then
                      (let self1 = self\<lparr>system_state :=
                                     (system_state self)\<lparr>last_valid_angle := Some angle\<rparr>\<rparr>
                       in case get_control_state (angle_calculator self1) angle of
                            (control_state, calc') \<Rightarrow>
                              (let self2 = update_mouse_control
                                             (self1\<lparr>angle_calculator := calc'\<rparr>) control_state
                               in case overlay of
                                    None \<Rightarrow> (None, self2)
                                  | Some e \<Rightarrow>
                                      if e = ValueError then (None, set_neutral_state self2)
                                      else (Some e, self2)))
                    else (None, self))))"

text \<open>
  \<^verbatim>\<open>_process_frame\<close>. The camera's answer is the argument \<open>frame\<close>: \<^verbatim>\<open>None\<close> when no
  frame was captured. With pose control off, \<^verbatim>\<open>_draw_disabled_indicator\<close> catches its
  own exceptions and \<^verbatim>\<open>_set_neutral_state\<close> runs. An exception that leaves
  \<^verbatim>\<open>_process_pose_detection\<close>, or that the two display calls after it raise, is caught
  and makes the method return \<^verbatim>\<open>False\<close>, the attributes staying as written so far.
  The result is the returned flag and the controller.
\<close>

definition process_frame ::
  "(Point \<Rightarrow> Point \<Rightarrow> Point \<Rightarrow> exn + real) \<Rightarrow> ApplicationController
     \<Rightarrow> Frame option \<Rightarrow> bool \<times> ApplicationController" where
  "process_frame calculate_elbow_angle self frame =
     (case frame of
        None \<Rightarrow> (False, self)
      | Some fr \<Rightarrow>
          (case (if pose_control_enabled (system_state self)
                 then process_pose_detection calculate_elbow_angle self
                        (frame_landmarks fr) (overlay_raises fr)
                 else (None, set_neutral_state self)) of
             (Some e, self') \<Rightarrow> (False, self')
           | (None, self') \<Rightarrow>
               (case show_raises fr of
                  None \<Rightarrow> (True, self')
                | Some e \<Rightarrow> (False, self'))))"

text \<open>
  \<^verbatim>\<open>toggle_pose_control\<close>: the flag is flipped; when that switches control off, all
  buttons are released and the stored state becomes NEUTRAL.
\<close>

definition toggle_pose_control :: "ApplicationController \<Rightarrow> ApplicationController" where
  "toggle_pose_control self =
     (let ss = (system_state self)
                 \<lparr>pose_control_enabled := \<not> pose_control_enabled (system_state self)\<rparr>
      in if \<not> pose_control_enabled ss
         then
           (case release_all (mouse_controller self) (pyautogui self) of
              (m', p') \<Rightarrow>
                self\<lparr>mouse_controller := m', pyautogui := p',
                     system_state := ss\<lparr>current_control_state := NEUTRAL\<rparr>\<rparr>)
         else self\<lparr>system_state := ss\<rparr>)"

text \<open>
  \<^verbatim>\<open>_handle_keyboard_input\<close>, on the key the display reports (\<^verbatim>\<open>None\<close> when no key
  was pressed).
\<close>

definition handle_keyboard_input :: "ApplicationController \<Rightarrow> string option \<Rightarrow> ApplicationController" where
  "handle_keyboard_input self key =
     (if key = Some ''esc'' \<or> key = Some ''q'' then self\<lparr>running := False\<rparr>
      else if key = Some ''space'' then toggle_pose_control self
      else if key = Some ''r''
      then self\<lparr>system_state :=
                  (system_state self)\<lparr>error_count := 0, pose_control_enabled := True\<rparr>,
                mouse_controller := reset_error_count (mouse_controller self)\<rparr>
      else self)"

text \<open>
  The frames without usable arm keypoints: no pose detected, no arm returned by the
  extraction (whether it returns nothing or raises), or an arm whose angle computation
  raises \<^verbatim>\<open>ValueError\<close>. The second predicate singles out the frames on which the
  extraction raises.
\<close>

definition no_usable_keypoints ::
  "(Point \<Rightarrow> Point \<Rightarrow> Point \<Rightarrow> exn + real) \<Rightarrow> PoseDetector \<Rightarrow> Landmark list option \<Rightarrow> bool" where
  "no_usable_keypoints calculate_elbow_angle detector landmarks =
     (case landmarks of
        None \<Rightarrow> True
      | Some lms \<Rightarrow>
          (case get_arm_keypoints detector lms of
             Inl e \<Rightarrow> True
           | Inr None \<Rightarrow> True
           | Inr (Some arm) \<Rightarrow>
               calculate_elbow_angle (shoulder arm) (elbow arm) (wrist arm) = Inl ValueError))"

definition extraction_raises :: "PoseDetector \<Rightarrow> Landmark list option \<Rightarrow> bool" where
  "extraction_raises detector landmarks =
     (case landmarks of
        None \<Rightarrow> False
      | Some lms \<Rightarrow> isl (get_arm_keypoints detector lms))"

section \<open>Runs of the loop and environments used in the concrete evaluations\<close>

text \<open>
  The controller as \<^verbatim>\<open>run\<close> finds it when it enters its loop: \<^verbatim>\<open>SystemState()\<close>, the
  components as their constructors leave them (the confidence threshold at its default
  0.5), \<^verbatim>\<open>_running\<close> set, and no PyAutoGUI call made yet. The argument is the
  behaviour of PyAutoGUI.
\<close>

definition ApplicationController_init :: "(nat \<Rightarrow> bool) \<Rightarrow> ApplicationController" where
  "ApplicationController_init env =
     \<lparr>system_state = SystemState_init,
      pose_detector = \<lparr>confidence_threshold = 1/2\<rparr>,
      mouse_controller = MouseController_init,
      angle_calculator = AngleCalculator_init,
      running = True,
      pyautogui = \<lparr>calls = [], raises = env\<rparr>\<rparr>"

text \<open>
  Successive calls of \<^verbatim>\<open>_process_frame\<close>, as the loop of \<^verbatim>\<open>run\<close> makes them while
  no key is pressed.
\<close>

fun process_frames ::
  "(Point \<Rightarrow> Point \<Rightarrow> Point \<Rightarrow> exn + real) \<Rightarrow> ApplicationController
     \<Rightarrow> Frame option list \<Rightarrow> ApplicationController" where
  "process_frames calc self [] = self"
| "process_frames calc self (frame # rest) =
     process_frames calc (snd (process_frame calc self frame)) rest"

text \<open>
  PyAutoGUI behaviours: every call raises; no call raises; the first call succeeds and
  every later call raises.
\<close>

definition always_raises :: "nat \<Rightarrow> bool" where
  "always_raises n = True"

definition never_raises :: "nat \<Rightarrow> bool" where
  "never_raises n = False"

definition raises_after_first :: "nat \<Rightarrow> bool" where
  "raises_after_first n = (n \<ge> 1)"

text \<open>
  Angle engines: one that raises \<^verbatim>\<open>ValueError\<close> on every input, and one that returns
  the given angle on every input.
\<close>

definition raising_engine :: "Point \<Rightarrow> Point \<Rightarrow> Point \<Rightarrow> exn + real" where
  "raising_engine s e w = Inl ValueError"

definition constant_engine :: "real \<Rightarrow> Point \<Rightarrow> Point \<Rightarrow> Point \<Rightarrow> exn + real" where
  "constant_engine angle s e w = Inr angle"

text \<open>
  A landmark list of 17 points in which both arms are seen with confidence 0.9 and the
  left arm is stretched out: shoulder, elbow and wrist lie on one line, the elbow between
  the other two, which is an elbow angle of 180 degrees.
\<close>

definition visible_pose :: "Landmark list" where
  "visible_pose =
     replicate 11 \<lparr>lm_x = 0, lm_y = 0, lm_z = 0, visibility = 9/10\<rparr>
     @ [\<lparr>lm_x = 3/10, lm_y = 2/10, lm_z = 0, visibility = 9/10\<rparr>,
        \<lparr>lm_x = 7/10, lm_y = 2/10, lm_z = 0, visibility = 9/10\<rparr>,
        \<lparr>lm_x = 4/10, lm_y = 4/10, lm_z = 0, visibility = 9/10\<rparr>,
        \<lparr>lm_x = 8/10, lm_y = 4/10, lm_z = 0, visibility = 9/10\<rparr>,
        \<lparr>lm_x = 5/10, lm_y = 6/10, lm_z = 0, visibility = 9/10\<rparr>,
        \<lparr>lm_x = 9/10, lm_y = 6/10, lm_z = 0, visibility = 9/10\<rparr>]"

text \<open>
  Frames on which every drawing and display call returns: one showing the given
  landmarks, and one in which no pose is detected.
\<close>

definition pose_frame :: "Landmark list \<Rightarrow> Frame option" where
  "pose_frame lms = Some \<lparr>frame_landmarks = Some lms, overlay_raises = None, show_raises = None\<rparr>"

definition no_pose_frame :: "Frame option" where
  "no_pose_frame = Some \<lparr>frame_landmarks = None, overlay_raises = None, show_raises = None\<rparr>"

section \<open>Classifier properties\<close>

lemma get_control_state_result:
  "fst (get_control_state self angle) =
     (if angle < (if last_state self = Some RIGHT_CLICK then 62 else 60) then RIGHT_CLICK
      else if angle > (if last_state self = Some LEFT_CLICK then 88 else 90) then LEFT_CLICK
      else NEUTRAL)"
  by (simp add: get_control_state_def Let_def RIGHT_CLICK_THRESHOLD_def
      LEFT_CLICK_THRESHOLD_def HYSTERESIS_MARGIN_def)

lemma get_control_state_memory:
  "last_state (snd (get_control_state self angle)) = Some (fst (get_control_state self angle))"
  by (simp add: get_control_state_def Let_def)

text \<open>
  C1. For every angle and every prior memory the classifier compares the angle first with
  the right threshold (62 when the memory is RIGHT\_CLICK, 60 otherwise), then with the
  left threshold (88 when the memory is LEFT\_CLICK, 90 otherwise): below the first gives
  RIGHT\_CLICK, else above the second gives LEFT\_CLICK, else NEUTRAL. From a fresh
  object the samples 50, 61, 63 give RIGHT\_CLICK, RIGHT\_CLICK, NEUTRAL and the samples
  120, 89, 87 give LEFT\_CLICK, LEFT\_CLICK, NEUTRAL.
\<close>

theorem C1_classify_thresholds:
  "fst (get_control_state self angle) =
     (if angle < (if last_state self = Some RIGHT_CLICK then 62 else 60) then RIGHT_CLICK
      else if angle > (if last_state self = Some LEFT_CLICK then 88 else 90) then LEFT_CLICK
      else NEUTRAL)
   \<and> classify_samples AngleCalculator_init [50, 61, 63] = [RIGHT_CLICK, RIGHT_CLICK, NEUTRAL]
   \<and> classify_samples AngleCalculator_init [120, 89, 87] = [LEFT_CLICK, LEFT_CLICK, NEUTRAL]"
proof (intro conjI)
  show "fst (get_control_state self angle) =
     (if angle < (if last_state self = Some RIGHT_CLICK then 62 else 60) then RIGHT_CLICK
      else if angle > (if last_state self = Some LEFT_CLICK then 88 else 90) then LEFT_CLICK
      else NEUTRAL)"
    by (rule get_control_state_result)
next
  show "classify_samples AngleCalculator_init [50, 61, 63] = [RIGHT_CLICK, RIGHT_CLICK, NEUTRAL]"
    by (simp add: AngleCalculator_init_def get_control_state_def Let_def
        RIGHT_CLICK_THRESHOLD_def LEFT_CLICK_THRESHOLD_def HYSTERESIS_MARGIN_def)
next
  show "classify_samples AngleCalculator_init [120, 89, 87] = [LEFT_CLICK, LEFT_CLICK, NEUTRAL]"
    by (simp add: AngleCalculator_init_def get_control_state_def Let_def
        RIGHT_CLICK_THRESHOLD_def LEFT_CLICK_THRESHOLD_def HYSTERESIS_MARGIN_def)
qed

text \<open>
  C2, as stated, fails: with memory LEFT\_CLICK the sample 90.0 is above the lowered left
  threshold 88 and classifies as LEFT\_CLICK; with memory RIGHT\_CLICK the sample 60.0 is
  below the raised right threshold 62 and classifies as RIGHT\_CLICK.
\<close>

theorem C2_boundary_counterexample:
  "fst (get_control_state \<lparr>last_state = Some LEFT_CLICK\<rparr> 90) = LEFT_CLICK
   \<and> fst (get_control_state \<lparr>last_state = Some RIGHT_CLICK\<rparr> 60) = RIGHT_CLICK"
  by (simp add: get_control_state_def Let_def RIGHT_CLICK_THRESHOLD_def
      LEFT_CLICK_THRESHOLD_def HYSTERESIS_MARGIN_def)

text \<open>
  C2, amended. The sample 60.0 classifies as NEUTRAL exactly when the memory is not
  RIGHT\_CLICK, and the sample 90.0 classifies as NEUTRAL exactly when the memory is not
  LEFT\_CLICK; so both are NEUTRAL from an unset or a NEUTRAL memory.
\<close>

theorem C2_boundary_amended:
  "(fst (get_control_state self 60) = NEUTRAL) = (last_state self \<noteq> Some RIGHT_CLICK)
   \<and> (fst (get_control_state self 90) = NEUTRAL) = (last_state self \<noteq> Some LEFT_CLICK)
   \<and> fst (get_control_state \<lparr>last_state = None\<rparr> 60) = NEUTRAL
   \<and> fst (get_control_state \<lparr>last_state = None\<rparr> 90) = NEUTRAL
   \<and> fst (get_control_state \<lparr>last_state = Some NEUTRAL\<rparr> 60) = NEUTRAL
   \<and> fst (get_control_state \<lparr>last_state = Some NEUTRAL\<rparr> 90) = NEUTRAL"
  by (simp add: get_control_state_result)

text \<open>
  C5. \<^verbatim>\<open>reset_state\<close> sets the memory to unset, and the next classification uses the
  thresholds 60 and 90 whatever the memory was before the reset; so the sample 61 is
  NEUTRAL right after a reset.
\<close>

theorem C5_reset_state:
  "last_state (reset_state self) = None
   \<and> fst (get_control_state (reset_state self) angle) =
       (if angle < 60 then RIGHT_CLICK else if angle > 90 then LEFT_CLICK else NEUTRAL)
   \<and> fst (get_control_state (reset_state self) 61) = NEUTRAL"
  by (simp add: get_control_state_result reset_state_def)

text \<open>
  C6. The outcome of a classification is determined by the angle and the prior memory:
  two objects holding the same memory, whatever else distinguishes them, given the same
  angle, return the same state and end with the same memory. The object after a call is
  the object before it with the memory set to the state the call returned, and that
  state is the one the thresholds select from the angle and the prior memory.
\<close>

theorem C6_classify_deterministic:
  assumes "last_state c1 = last_state c2"
  shows "fst (get_control_state c1 angle) = fst (get_control_state c2 angle)
    \<and> last_state (snd (get_control_state c1 angle)) = last_state (snd (get_control_state c2 angle))
    \<and> snd (get_control_state c1 angle) = c1\<lparr>last_state := Some (fst (get_control_state c1 angle))\<rparr>
    \<and> last_state (snd (get_control_state c1 angle)) = Some (fst (get_control_state c1 angle))
    \<and> fst (get_control_state c1 angle) =
        (if angle < (if last_state c1 = Some RIGHT_CLICK then 62 else 60) then RIGHT_CLICK
         else if angle > (if last_state c1 = Some LEFT_CLICK then 88 else 90) then LEFT_CLICK
         else NEUTRAL)"
proof -
  have post: "snd (get_control_state c angle) = c\<lparr>last_state := Some (fst (get_control_state c angle))\<rparr>"
    for c :: "'c AngleCalculator_scheme"
    by (simp add: get_control_state_def Let_def)
  from assms have "fst (get_control_state c1 angle) = fst (get_control_state c2 angle)"
    by (simp add: get_control_state_result)
  then show ?thesis
    using post [of c1] get_control_state_memory [of c1 angle] get_control_state_memory [of c2 angle]
      get_control_state_result [of c1 angle]
    by simp
qed

theorem C6_classify_deterministic_witness:
  "\<lparr>last_state = Some RIGHT_CLICK, \<dots> = True\<rparr> \<noteq> \<lparr>last_state = Some RIGHT_CLICK, \<dots> = False\<rparr>
   \<and> fst (get_control_state \<lparr>last_state = Some RIGHT_CLICK, \<dots> = True\<rparr> 61) = RIGHT_CLICK
   \<and> fst (get_control_state \<lparr>last_state = Some RIGHT_CLICK, \<dots> = False\<rparr> 61) = RIGHT_CLICK
   \<and> snd (get_control_state \<lparr>last_state = Some RIGHT_CLICK, \<dots> = True\<rparr> 61)
       = \<lparr>last_state = Some RIGHT_CLICK, \<dots> = True\<rparr>
   \<and> last_state (snd (get_control_state \<lparr>last_state = Some RIGHT_CLICK, \<dots> = False\<rparr> 61))
       = Some RIGHT_CLICK"
  using C6_classify_deterministic [of "\<lparr>last_state = Some RIGHT_CLICK, \<dots> = True\<rparr>"
      "\<lparr>last_state = Some RIGHT_CLICK, \<dots> = False\<rparr>" 61]
  by (simp add: get_control_state_def Let_def RIGHT_CLICK_THRESHOLD_def
      LEFT_CLICK_THRESHOLD_def HYSTERESIS_MARGIN_def)

section \<open>Injection adapter properties\<close>

text \<open>
  C10. When the state asked for is the state the mouse controller already holds,
  \<^verbatim>\<open>set_state\<close> returns normally at once: no PyAutoGUI call is made, and the held
  state and the error counter keep their values.
\<close>

theorem C10_set_state_redundant:
  assumes "mc_current_state self = state"
  shows "set_state self state p = (Inr (), self, p)
    \<and> calls (snd (snd (set_state self state p))) = calls p
    \<and> mc_current_state (fst (snd (set_state self state p))) = mc_current_state self
    \<and> mc_error_count (fst (snd (set_state self state p))) = mc_error_count self"
  using assms by (simp add: set_state_def)

theorem C10_set_state_redundant_witness:
  "mc_current_state \<lparr>mc_current_state = LEFT_CLICK, mc_error_count = 3, mc_max_errors = 5\<rparr> = LEFT_CLICK
   \<and> set_state \<lparr>mc_current_state = LEFT_CLICK, mc_error_count = 3, mc_max_errors = 5\<rparr> LEFT_CLICK
        \<lparr>calls = [mouseDown Left_button], raises = always_raises\<rparr>
      = (Inr (), \<lparr>mc_current_state = LEFT_CLICK, mc_error_count = 3, mc_max_errors = 5\<rparr>,
         \<lparr>calls = [mouseDown Left_button], raises = always_raises\<rparr>)"
  using C10_set_state_redundant [of "\<lparr>mc_current_state = LEFT_CLICK, mc_error_count = 3, mc_max_errors = 5\<rparr>"
      LEFT_CLICK "\<lparr>calls = [mouseDown Left_button], raises = always_raises\<rparr>"]
  by simp

section \<open>Arm keypoint extraction properties\<close>

lemma extract_arm_keypoints_eq:
  assumes "\<forall>l \<in> set lms. 0 \<le> visibility l \<and> visibility l \<le> 1"
  shows "extract_arm_keypoints self lms si ei wi =
     (if max si (max ei wi) < length lms
         \<and> confidence_threshold self \<le> min_point_confidence lms si ei wi
      then Inr (Some (arm_at lms si ei wi)) else Inr None)"
proof (cases "max si (max ei wi) < length lms")
  case False
  then have short: "length lms \<le> max si (max ei wi)" by (simp only: not_less)
  have "extract_arm_keypoints self lms si ei wi = Inr None"
    unfolding extract_arm_keypoints_def Let_def using short by (simp only: if_True)
  with False show ?thesis by (simp only: if_False simp_thms)
next
  case True
  then have long: "\<not> length lms \<le> max si (max ei wi)" by (simp only: not_le)
  from True have "lms ! si \<in> set lms" "lms ! ei \<in> set lms" "lms ! wi \<in> set lms"
    by simp_all
  with assms have range: "0 \<le> min_point_confidence lms si ei wi"
      "min_point_confidence lms si ei wi \<le> 1"
    by (auto simp: min_point_confidence_def min_def)
  have unfolded: "extract_arm_keypoints self lms si ei wi =
      (if min_point_confidence lms si ei wi < confidence_threshold self then Inr None
       else (case ArmKeypoints_init (Point_of (lms ! si)) (Point_of (lms ! ei))
                    (Point_of (lms ! wi)) (min_point_confidence lms si ei wi) of
               Inl e \<Rightarrow> Inl e | Inr arm \<Rightarrow> Inr (Some arm)))"
    unfolding extract_arm_keypoints_def Let_def min_point_confidence_def
    using long by (simp only: if_False)
  from range have "ArmKeypoints_init (Point_of (lms ! si)) (Point_of (lms ! ei))
        (Point_of (lms ! wi)) (min_point_confidence lms si ei wi) = Inr (arm_at lms si ei wi)"
    by (simp add: ArmKeypoints_init_def arm_at_def)
  with unfolded True show ?thesis by (simp add: not_less)
qed

lemma get_arm_keypoints_eq:
  assumes "lms \<noteq> []" and "\<forall>l \<in> set lms. 0 \<le> visibility l \<and> visibility l \<le> 1"
  shows "get_arm_keypoints self lms =
       (if 15 < length lms \<and> confidence_threshold self \<le> min_point_confidence lms 11 13 15
        then Inr (Some (arm_at lms 11 13 15))
        else if 16 < length lms \<and> confidence_threshold self \<le> min_point_confidence lms 12 14 16
        then Inr (Some (arm_at lms 12 14 16))
        else Inr None)"
  using assms(1)
  by (simp add: get_arm_keypoints_def extract_arm_keypoints_eq [OF assms(2)]
      LEFT_SHOULDER_def LEFT_ELBOW_def LEFT_WRIST_def
      RIGHT_SHOULDER_def RIGHT_ELBOW_def RIGHT_WRIST_def arm_at_def)

text \<open>
  C9, as stated, fails on the empty landmark list, which is too short to hold the
  required indices: \<^verbatim>\<open>get_arm_keypoints\<close> raises \<^verbatim>\<open>ValueError\<close> there and does not
  return \<^verbatim>\<open>None\<close>.
\<close>

theorem C9_empty_counterexample:
  "get_arm_keypoints \<lparr>confidence_threshold = 1/2\<rparr> [] = Inl ValueError
   \<and> get_arm_keypoints \<lparr>confidence_threshold = 1/2\<rparr> [] \<noteq> Inr None"
  by (simp add: get_arm_keypoints_def)

text \<open>
  C9, amended. For every non-empty landmark list whose per-point confidences lie in
  \<open>[0, 1]\<close>: the left arm (indices 11, 13, 15) is returned when the list holds those
  indices and the minimum of the three confidences is at least the threshold; otherwise
  the right arm (indices 12, 14, 16) under the same condition; otherwise nothing. A
  returned arm has as confidence the minimum of its three per-point confidences, which
  is at least the threshold. The empty list raises \<^verbatim>\<open>ValueError\<close>.
\<close>

theorem C9_get_arm_keypoints_amended:
  assumes "lms \<noteq> []" and "list_all (\<lambda>l. 0 \<le> visibility l \<and> visibility l \<le> 1) lms"
  shows "get_arm_keypoints self lms =
       (if 15 < length lms \<and> confidence_threshold self \<le> min_point_confidence lms 11 13 15
        then Inr (Some (arm_at lms 11 13 15))
        else if 16 < length lms \<and> confidence_threshold self \<le> min_point_confidence lms 12 14 16
        then Inr (Some (arm_at lms 12 14 16))
        else Inr None)
     \<and> (\<forall>arm. get_arm_keypoints self lms = Inr (Some arm) \<longrightarrow>
           confidence_threshold self \<le> confidence arm
           \<and> (confidence arm = min_point_confidence lms 11 13 15
              \<or> confidence arm = min_point_confidence lms 12 14 16))
     \<and> get_arm_keypoints self [] = Inl ValueError"
proof -
  from assms(2) have vis: "\<forall>l \<in> set lms. 0 \<le> visibility l \<and> visibility l \<le> 1"
    by (simp add: list_all_iff)
  note eq = get_arm_keypoints_eq [OF assms(1) vis, of self]
  have conf: "confidence (arm_at lms si ei wi) = min_point_confidence lms si ei wi"
    for si ei wi by (simp add: arm_at_def)
  have "\<forall>arm. get_arm_keypoints self lms = Inr (Some arm) \<longrightarrow>
           confidence_threshold self \<le> confidence arm
           \<and> (confidence arm = min_point_confidence lms 11 13 15
              \<or> confidence arm = min_point_confidence lms 12 14 16)"
    unfolding eq by (auto simp: conf split: if_splits)
  moreover have "get_arm_keypoints self [] = Inl ValueError"
    by (simp add: get_arm_keypoints_def)
  ultimately show ?thesis using eq by blast
qed

theorem C9_get_arm_keypoints_witness:
  "replicate 11 \<lparr>lm_x = 0, lm_y = 0, lm_z = 0, visibility = 1/10\<rparr>
     @ [\<lparr>lm_x = 0, lm_y = 0, lm_z = 0, visibility = 1/10\<rparr>,
        \<lparr>lm_x = 3/10, lm_y = 2/10, lm_z = 0, visibility = 9/10\<rparr>,
        \<lparr>lm_x = 0, lm_y = 0, lm_z = 0, visibility = 1/10\<rparr>,
        \<lparr>lm_x = 4/10, lm_y = 4/10, lm_z = 0, visibility = 8/10\<rparr>,
        \<lparr>lm_x = 0, lm_y = 0, lm_z = 0, visibility = 1/10\<rparr>,
        \<lparr>lm_x = 5/10, lm_y = 6/10, lm_z = 0, visibility = 7/10\<rparr>] \<noteq> []
   \<and> get_arm_keypoints \<lparr>confidence_threshold = 1/2\<rparr>
       (replicate 11 \<lparr>lm_x = 0, lm_y = 0, lm_z = 0, visibility = 1/10\<rparr>
         @ [\<lparr>lm_x = 0, lm_y = 0, lm_z = 0, visibility = 1/10\<rparr>,
            \<lparr>lm_x = 3/10, lm_y = 2/10, lm_z = 0, visibility = 9/10\<rparr>,
            \<lparr>lm_x = 0, lm_y = 0, lm_z = 0, visibility = 1/10\<rparr>,
            \<lparr>lm_x = 4/10, lm_y = 4/10, lm_z = 0, visibility = 8/10\<rparr>,
            \<lparr>lm_x = 0, lm_y = 0, lm_z = 0, visibility = 1/10\<rparr>,
            \<lparr>lm_x = 5/10, lm_y = 6/10, lm_z = 0, visibility = 7/10\<rparr>])
     = Inr (Some \<lparr>shoulder = \<lparr>point_x = 3/10, point_y = 2/10, point_z = 0\<rparr>,
                  elbow = \<lparr>point_x = 4/10, point_y = 4/10, point_z = 0\<rparr>,
                  wrist = \<lparr>point_x = 5/10, point_y = 6/10, point_z = 0\<rparr>,
                  confidence = 7/10\<rparr>)"
  using C9_get_arm_keypoints_amended [of
      "replicate 11 \<lparr>lm_x = 0, lm_y = 0, lm_z = 0, visibility = 1/10\<rparr>
         @ [\<lparr>lm_x = 0, lm_y = 0, lm_z = 0, visibility = 1/10\<rparr>,
            \<lparr>lm_x = 3/10, lm_y = 2/10, lm_z = 0, visibility = 9/10\<rparr>,
            \<lparr>lm_x = 0, lm_y = 0, lm_z = 0, visibility = 1/10\<rparr>,
            \<lparr>lm_x = 4/10, lm_y = 4/10, lm_z = 0, visibility = 8/10\<rparr>,
            \<lparr>lm_x = 0, lm_y = 0, lm_z = 0, visibility = 1/10\<rparr>,
            \<lparr>lm_x = 5/10, lm_y = 6/10, lm_z = 0, visibility = 7/10\<rparr>]"
      "\<lparr>confidence_threshold = 1/2\<rparr>"]
  by (simp add: nth_append min_point_confidence_def arm_at_def Point_of_def list_all_iff)

section \<open>Control loop properties\<close>

lemma set_neutral_state_angle_calculator:
  "angle_calculator (set_neutral_state self) = angle_calculator self"
  by (simp add: set_neutral_state_def split: prod.splits sum.splits)

lemma set_neutral_state_enabled:
  "pose_control_enabled (system_state (set_neutral_state self)) =
     pose_control_enabled (system_state self)"
  by (simp add: set_neutral_state_def split: prod.splits sum.splits)

lemma set_neutral_state_error_count:
  "error_count (system_state (set_neutral_state self)) = error_count (system_state self)"
  by (simp add: set_neutral_state_def split: prod.splits sum.splits)

lemma set_neutral_state_current:
  "current_control_state (system_state (set_neutral_state self)) =
     (if current_control_state (system_state self) \<noteq> NEUTRAL
         \<and> isl (fst (set_state (mouse_controller self) NEUTRAL (pyautogui self)))
      then current_control_state (system_state self) else NEUTRAL)"
  by (auto simp: set_neutral_state_def split: prod.splits sum.splits)

lemma extract_arm_keypoints_raises:
  "extract_arm_keypoints det lms si ei wi = Inl e \<Longrightarrow> e = ValueError"
  by (auto simp: extract_arm_keypoints_def ArmKeypoints_init_def Let_def split: if_splits)

lemma get_arm_keypoints_raises:
  assumes "get_arm_keypoints det lms = Inl e"
  shows "e = ValueError"
  using assms
  by (auto simp: get_arm_keypoints_def split: if_splits sum.splits
      dest: extract_arm_keypoints_raises)

lemma process_pose_detection_unusable:
  assumes "no_usable_keypoints calc (pose_detector self) landmarks"
  shows "process_pose_detection calc self landmarks overlay =
     (if extraction_raises (pose_detector self) landmarks then (Some ValueError, self)
      else (None, set_neutral_state self))"
proof (cases landmarks)
  case None
  then show ?thesis by (simp add: process_pose_detection_def extraction_raises_def)
next
  case (Some lms)
  show ?thesis
  proof (cases "get_arm_keypoints (pose_detector self) lms")
    case (Inl e)
    then have "e = ValueError" by (rule get_arm_keypoints_raises)
    with Some Inl show ?thesis
      by (simp add: process_pose_detection_def extraction_raises_def)
  next
    case (Inr arm)
    with Some assms show ?thesis
      by (auto simp: process_pose_detection_def extraction_raises_def no_usable_keypoints_def
          split: option.splits)
  qed
qed

lemma visible_pose_arm:
  "get_arm_keypoints \<lparr>confidence_threshold = 1/2\<rparr> visible_pose =
     Inr (Some (arm_at visible_pose 11 13 15))"
  using get_arm_keypoints_eq [of visible_pose "\<lparr>confidence_threshold = 1/2\<rparr>"]
  by (simp add: visible_pose_def min_point_confidence_def nth_append)

text \<open>
  A run from the initial state in which the first PyAutoGUI call succeeds and all later
  ones raise: the stretched arm, at 180 degrees, presses the left button; then frames
  without a pose alternate with frames showing the same arm. Each frame without a pose
  fails to release the button, which the mouse controller counts; each frame with the
  arm asks for the state the mouse controller still holds and sets the stored state back
  to LEFT\_CLICK. After nine frames four errors are counted.
\<close>

lemma dropout_run:
  "process_frames (constant_engine 180) (ApplicationController_init raises_after_first)
     [pose_frame visible_pose, no_pose_frame, pose_frame visible_pose, no_pose_frame,
      pose_frame visible_pose, no_pose_frame, pose_frame visible_pose, no_pose_frame,
      pose_frame visible_pose]
   = \<lparr>system_state = \<lparr>pose_control_enabled = True, current_control_state = LEFT_CLICK,
                         last_valid_angle = Some 180, error_count = 0\<rparr>,
        pose_detector = \<lparr>confidence_threshold = 1/2\<rparr>,
        mouse_controller = \<lparr>mc_current_state = LEFT_CLICK, mc_error_count = 4, mc_max_errors = 5\<rparr>,
        angle_calculator = \<lparr>last_state = Some LEFT_CLICK\<rparr>,
        running = True,
        pyautogui = \<lparr>calls = [mouseDown Left_button, mouseUp Left_button, mouseUp Left_button,
                               mouseUp Left_button, mouseUp Left_button],
                     raises = raises_after_first\<rparr>\<rparr>"
  by (simp add: ApplicationController_init_def SystemState_init_def MouseController_init_def
      AngleCalculator_init_def process_frame_def process_pose_detection_def visible_pose_arm
      pose_frame_def no_pose_frame_def constant_engine_def is_angle_valid_def
      get_control_state_def RIGHT_CLICK_THRESHOLD_def LEFT_CLICK_THRESHOLD_def
      HYSTERESIS_MARGIN_def update_mouse_control_def set_neutral_state_def set_state_def
      transition_to_state_def pyautogui_call_def Let_def raises_after_first_def)

text \<open>The state after the first frame of such a run when PyAutoGUI works.\<close>

lemma pressed_run:
  "process_frames (constant_engine 180) (ApplicationController_init never_raises)
     [pose_frame visible_pose]
   = \<lparr>system_state = \<lparr>pose_control_enabled = True, current_control_state = LEFT_CLICK,
                         last_valid_angle = Some 180, error_count = 0\<rparr>,
        pose_detector = \<lparr>confidence_threshold = 1/2\<rparr>,
        mouse_controller = \<lparr>mc_current_state = LEFT_CLICK, mc_error_count = 0, mc_max_errors = 5\<rparr>,
        angle_calculator = \<lparr>last_state = Some LEFT_CLICK\<rparr>,
        running = True,
        pyautogui = \<lparr>calls = [mouseDown Left_button], raises = never_raises\<rparr>\<rparr>"
  by (simp add: ApplicationController_init_def SystemState_init_def MouseController_init_def
      AngleCalculator_init_def process_frame_def process_pose_detection_def visible_pose_arm
      pose_frame_def no_pose_frame_def constant_engine_def is_angle_valid_def
      get_control_state_def RIGHT_CLICK_THRESHOLD_def LEFT_CLICK_THRESHOLD_def
      HYSTERESIS_MARGIN_def update_mouse_control_def set_neutral_state_def set_state_def
      transition_to_state_def pyautogui_call_def Let_def never_raises_def)

text \<open>
  C7, as stated, fails in its first half: on a frame without usable arm keypoints the
  loop does not always reach NEUTRAL. In the state \<open>dropout_run\<close> ends in (LEFT\_CLICK
  held, four errors counted by the mouse controller, PyAutoGUI raising), a frame without
  a pose makes \<^verbatim>\<open>set_state(NEUTRAL)\<close> raise \<^verbatim>\<open>MouseControlError\<close>;
  \<^verbatim>\<open>_set_neutral_state\<close> catches and logs it, and the stored control state stays
  LEFT\_CLICK. And in the state \<open>pressed_run\<close> ends in, a frame whose landmark list is
  empty makes \<^verbatim>\<open>get_arm_keypoints\<close> raise \<^verbatim>\<open>ValueError\<close> outside the \<^verbatim>\<open>try\<close>: no
  fallback runs and the stored control state stays LEFT\_CLICK.
\<close>

theorem C7_fallback_counterexample:
  "no_usable_keypoints (constant_engine 180) \<lparr>confidence_threshold = 1/2\<rparr> None
   \<and> process_pose_detection (constant_engine 180)
       \<lparr>system_state = \<lparr>pose_control_enabled = True, current_control_state = LEFT_CLICK,
                         last_valid_angle = Some 180, error_count = 0\<rparr>,
        pose_detector = \<lparr>confidence_threshold = 1/2\<rparr>,
        mouse_controller = \<lparr>mc_current_state = LEFT_CLICK, mc_error_count = 4, mc_max_errors = 5\<rparr>,
        angle_calculator = \<lparr>last_state = Some LEFT_CLICK\<rparr>,
        running = True,
        pyautogui = \<lparr>calls = [mouseDown Left_button, mouseUp Left_button, mouseUp Left_button,
                               mouseUp Left_button, mouseUp Left_button],
                     raises = raises_after_first\<rparr>\<rparr>
       None None
     = (None, \<lparr>system_state = \<lparr>pose_control_enabled = True, current_control_state = LEFT_CLICK,
                         last_valid_angle = Some 180, error_count = 0\<rparr>,
        pose_detector = \<lparr>confidence_threshold = 1/2\<rparr>,
        mouse_controller = \<lparr>mc_current_state = LEFT_CLICK, mc_error_count = 5, mc_max_errors = 5\<rparr>,
        angle_calculator = \<lparr>last_state = Some LEFT_CLICK\<rparr>,
        running = True,
        pyautogui = \<lparr>calls = [mouseDown Left_button, mouseUp Left_button, mouseUp Left_button,
                               mouseUp Left_button, mouseUp Left_button, mouseUp Left_button],
                     raises = raises_after_first\<rparr>\<rparr>)
   \<and> no_usable_keypoints (constant_engine 180) \<lparr>confidence_threshold = 1/2\<rparr> (Some [])
   \<and> process_pose_detection (constant_engine 180)
       \<lparr>system_state = \<lparr>pose_control_enabled = True, current_control_state = LEFT_CLICK,
                         last_valid_angle = Some 180, error_count = 0\<rparr>,
        pose_detector = \<lparr>confidence_threshold = 1/2\<rparr>,
        mouse_controller = \<lparr>mc_current_state = LEFT_CLICK, mc_error_count = 0, mc_max_errors = 5\<rparr>,
        angle_calculator = \<lparr>last_state = Some LEFT_CLICK\<rparr>,
        running = True,
        pyautogui = \<lparr>calls = [mouseDown Left_button], raises = never_raises\<rparr>\<rparr>
       (Some []) None
     = (Some ValueError, \<lparr>system_state = \<lparr>pose_control_enabled = True, current_control_state = LEFT_CLICK,
                         last_valid_angle = Some 180, error_count = 0\<rparr>,
        pose_detector = \<lparr>confidence_threshold = 1/2\<rparr>,
        mouse_controller = \<lparr>mc_current_state = LEFT_CLICK, mc_error_count = 0, mc_max_errors = 5\<rparr>,
        angle_calculator = \<lparr>last_state = Some LEFT_CLICK\<rparr>,
        running = True,
        pyautogui = \<lparr>calls = [mouseDown Left_button], raises = never_raises\<rparr>\<rparr>)"
  by (simp add: no_usable_keypoints_def process_pose_detection_def get_arm_keypoints_def
      set_neutral_state_def set_state_def transition_to_state_def pyautogui_call_def
      raises_after_first_def Let_def)

text \<open>
  C7, amended. On a frame without usable arm keypoints the classifier is not called and
  its memory is unchanged, whatever the frame does otherwise. When no pose is detected,
  the extraction returns no arm, or the angle computation raises \<^verbatim>\<open>ValueError\<close>, the
  whole effect of \<^verbatim>\<open>_process_pose_detection\<close> is that of \<^verbatim>\<open>_set_neutral_state\<close>: the
  stored control state becomes NEUTRAL, except when it was not NEUTRAL and
  \<^verbatim>\<open>set_state(NEUTRAL)\<close> raises, in which case it is kept. When the extraction itself
  raises (an empty landmark list, a confidence outside \<open>[0, 1]\<close>), its \<^verbatim>\<open>ValueError\<close>
  leaves \<^verbatim>\<open>_process_pose_detection\<close>: no fallback runs, the controller is unchanged,
  and \<^verbatim>\<open>_process_frame\<close> returns \<^verbatim>\<open>False\<close>.
\<close>

theorem C7_fallback_amended:
  assumes "no_usable_keypoints calc (pose_detector self) (frame_landmarks fr)"
  shows "process_pose_detection calc self (frame_landmarks fr) (overlay_raises fr) =
        (if extraction_raises (pose_detector self) (frame_landmarks fr)
         then (Some ValueError, self) else (None, set_neutral_state self))
    \<and> angle_calculator (snd (process_pose_detection calc self (frame_landmarks fr)
          (overlay_raises fr))) = angle_calculator self
    \<and> angle_calculator (snd (process_frame calc self (Some fr))) = angle_calculator self
    \<and> current_control_state (system_state (set_neutral_state self)) =
        (if current_control_state (system_state self) \<noteq> NEUTRAL
            \<and> isl (fst (set_state (mouse_controller self) NEUTRAL (pyautogui self)))
         then current_control_state (system_state self) else NEUTRAL)
    \<and> (if extraction_raises (pose_detector self) (frame_landmarks fr)
           \<and> pose_control_enabled (system_state self)
        then process_frame calc self (Some fr) = (False, self)
        else snd (process_frame calc self (Some fr)) = set_neutral_state self)"
proof -
  note ppd = process_pose_detection_unusable [OF assms, of "overlay_raises fr"]
  have mem: "angle_calculator (snd (process_pose_detection calc self (frame_landmarks fr)
          (overlay_raises fr))) = angle_calculator self"
    by (simp add: ppd set_neutral_state_angle_calculator)
  have frame_mem: "angle_calculator (snd (process_frame calc self (Some fr))) =
      angle_calculator self"
    by (simp add: process_frame_def ppd set_neutral_state_angle_calculator
        split: option.splits)
  have frame_eff: "if extraction_raises (pose_detector self) (frame_landmarks fr)
           \<and> pose_control_enabled (system_state self)
        then process_frame calc self (Some fr) = (False, self)
        else snd (process_frame calc self (Some fr)) = set_neutral_state self"
    by (simp add: process_frame_def ppd split: option.splits)
  from ppd mem frame_mem frame_eff set_neutral_state_current [of self]
  show ?thesis by (simp only: simp_thms)
qed

theorem C7_fallback_witness:
  "no_usable_keypoints raising_engine \<lparr>confidence_threshold = 1/2\<rparr> (Some visible_pose)
   \<and> process_pose_detection raising_engine
       \<lparr>system_state = \<lparr>pose_control_enabled = True, current_control_state = LEFT_CLICK,
                         last_valid_angle = Some 180, error_count = 0\<rparr>,
        pose_detector = \<lparr>confidence_threshold = 1/2\<rparr>,
        mouse_controller = \<lparr>mc_current_state = LEFT_CLICK, mc_error_count = 0, mc_max_errors = 5\<rparr>,
        angle_calculator = \<lparr>last_state = Some LEFT_CLICK\<rparr>,
        running = True,
        pyautogui = \<lparr>calls = [mouseDown Left_button], raises = never_raises\<rparr>\<rparr>
       (Some visible_pose) None
     = (None, \<lparr>system_state = \<lparr>pose_control_enabled = True, current_control_state = NEUTRAL,
                         last_valid_angle = Some 180, error_count = 0\<rparr>,
        pose_detector = \<lparr>confidence_threshold = 1/2\<rparr>,
        mouse_controller = \<lparr>mc_current_state = NEUTRAL, mc_error_count = 0, mc_max_errors = 5\<rparr>,
        angle_calculator = \<lparr>last_state = Some LEFT_CLICK\<rparr>,
        running = True,
        pyautogui = \<lparr>calls = [mouseDown Left_button, mouseUp Left_button],
                     raises = never_raises\<rparr>\<rparr>)"
proof -
  have h: "no_usable_keypoints raising_engine
      (pose_detector \<lparr>system_state = \<lparr>pose_control_enabled = True, current_control_state = LEFT_CLICK,
                         last_valid_angle = Some 180, error_count = 0\<rparr>,
        pose_detector = \<lparr>confidence_threshold = 1/2\<rparr>,
        mouse_controller = \<lparr>mc_current_state = LEFT_CLICK, mc_error_count = 0, mc_max_errors = 5\<rparr>,
        angle_calculator = \<lparr>last_state = Some LEFT_CLICK\<rparr>,
        running = True,
        pyautogui = \<lparr>calls = [mouseDown Left_button], raises = never_raises\<rparr>\<rparr>)
      (frame_landmarks \<lparr>frame_landmarks = Some visible_pose, overlay_raises = None, show_raises = None\<rparr>)"
    by (simp add: no_usable_keypoints_def visible_pose_arm raising_engine_def)
  have nr: "\<not> extraction_raises \<lparr>confidence_threshold = 1/2\<rparr> (Some visible_pose)"
    by (simp add: extraction_raises_def visible_pose_arm)
  show ?thesis
    using h nr C7_fallback_amended [OF h]
    by (simp add: set_neutral_state_def set_state_def transition_to_state_def pyautogui_call_def Let_def never_raises_def)
qed

lemma update_mouse_control_error_count:
  "error_count (system_state (update_mouse_control self cs)) =
     (if isl (fst (set_state (mouse_controller self) cs (pyautogui self)))
      then error_count (system_state self) + 1 else 0)"
  by (simp add: update_mouse_control_def Let_def split: prod.splits sum.splits)

lemma update_mouse_control_enabled:
  "pose_control_enabled (system_state (update_mouse_control self cs)) =
     (if isl (fst (set_state (mouse_controller self) cs (pyautogui self)))
         \<and> error_count (system_state self) + 1 > 5
      then False else pose_control_enabled (system_state self))"
  by (simp add: update_mouse_control_def Let_def split: prod.splits sum.splits)

lemma process_frame_keeps_disabled:
  assumes "\<not> pose_control_enabled (system_state self)"
  shows "\<not> pose_control_enabled (system_state (snd (process_frame calc self frame)))"
  using assms
  by (simp add: process_frame_def set_neutral_state_enabled split: option.splits)

lemma handle_keyboard_input_reset:
  "handle_keyboard_input self (Some ''r'') =
     self\<lparr>system_state := (system_state self)\<lparr>error_count := 0, pose_control_enabled := True\<rparr>,
          mouse_controller := reset_error_count (mouse_controller self)\<rparr>"
  by (simp add: handle_keyboard_input_def)

lemma handle_keyboard_input_toggle:
  "handle_keyboard_input self (Some ''space'') = toggle_pose_control self"
  by (simp add: handle_keyboard_input_def)

lemma toggle_pose_control_enabled:
  "pose_control_enabled (system_state (toggle_pose_control self)) =
     (\<not> pose_control_enabled (system_state self))"
  by (simp add: toggle_pose_control_def Let_def split: prod.splits)

lemma toggle_pose_control_keeps:
  "error_count (system_state (toggle_pose_control self)) = error_count (system_state self)
   \<and> angle_calculator (toggle_pose_control self) = angle_calculator self"
  by (simp add: toggle_pose_control_def Let_def split: prod.splits)

text \<open>
  A run from the initial state in which every PyAutoGUI call raises, on ten frames
  showing the stretched arm. The mouse controller swallows its first four failures, which
  the loop takes for successes; from the fifth on \<^verbatim>\<open>set_state\<close> raises, and the sixth of
  these switches pose control off.
\<close>

lemma failing_run:
  "process_frames (constant_engine 180) (ApplicationController_init always_raises)
     [pose_frame visible_pose, pose_frame visible_pose, pose_frame visible_pose,
      pose_frame visible_pose, pose_frame visible_pose, pose_frame visible_pose,
      pose_frame visible_pose, pose_frame visible_pose, pose_frame visible_pose,
      pose_frame visible_pose]
   = \<lparr>system_state = \<lparr>pose_control_enabled = False, current_control_state = LEFT_CLICK,
                         last_valid_angle = Some 180, error_count = 6\<rparr>,
        pose_detector = \<lparr>confidence_threshold = 1/2\<rparr>,
        mouse_controller = \<lparr>mc_current_state = NEUTRAL, mc_error_count = 10, mc_max_errors = 5\<rparr>,
        angle_calculator = \<lparr>last_state = Some LEFT_CLICK\<rparr>,
        running = True,
        pyautogui = \<lparr>calls = [mouseDown Left_button, mouseDown Left_button, mouseDown Left_button,
                               mouseDown Left_button, mouseDown Left_button, mouseDown Left_button,
                               mouseDown Left_button, mouseDown Left_button, mouseDown Left_button,
                               mouseDown Left_button],
                     raises = always_raises\<rparr>\<rparr>"
  by (simp add: ApplicationController_init_def SystemState_init_def MouseController_init_def
      AngleCalculator_init_def process_frame_def process_pose_detection_def visible_pose_arm
      pose_frame_def no_pose_frame_def constant_engine_def is_angle_valid_def
      get_control_state_def RIGHT_CLICK_THRESHOLD_def LEFT_CLICK_THRESHOLD_def
      HYSTERESIS_MARGIN_def update_mouse_control_def set_neutral_state_def set_state_def
      transition_to_state_def pyautogui_call_def Let_def always_raises_def)

text \<open>
  C8, as stated, fails in three places. In the state \<open>failing_run\<close> ends in, pose control
  off after six counted failures: the reset key leaves the classifier's memory at
  LEFT\_CLICK; and the toggle key, which is no reset and leaves the counter at 6, switches
  pose control on again. In the state \<open>dropout_run\<close> ends in, the \<^verbatim>\<open>set_state\<close> call of
  the fallback raises and the loop's error counter stays 0.
\<close>

theorem C8_reset_counterexample:
  "last_state (angle_calculator (handle_keyboard_input
       \<lparr>system_state = \<lparr>pose_control_enabled = False, current_control_state = LEFT_CLICK,
                         last_valid_angle = Some 180, error_count = 6\<rparr>,
        pose_detector = \<lparr>confidence_threshold = 1/2\<rparr>,
        mouse_controller = \<lparr>mc_current_state = NEUTRAL, mc_error_count = 10, mc_max_errors = 5\<rparr>,
        angle_calculator = \<lparr>last_state = Some LEFT_CLICK\<rparr>,
        running = True,
        pyautogui = \<lparr>calls = [mouseDown Left_button, mouseDown Left_button, mouseDown Left_button,
                               mouseDown Left_button, mouseDown Left_button, mouseDown Left_button,
                               mouseDown Left_button, mouseDown Left_button, mouseDown Left_button,
                               mouseDown Left_button],
                     raises = always_raises\<rparr>\<rparr>
       (Some ''r''))) = Some LEFT_CLICK
   \<and> pose_control_enabled (system_state (handle_keyboard_input
       \<lparr>system_state = \<lparr>pose_control_enabled = False, current_control_state = LEFT_CLICK,
                         last_valid_angle = Some 180, error_count = 6\<rparr>,
        pose_detector = \<lparr>confidence_threshold = 1/2\<rparr>,
        mouse_controller = \<lparr>mc_current_state = NEUTRAL, mc_error_count = 10, mc_max_errors = 5\<rparr>,
        angle_calculator = \<lparr>last_state = Some LEFT_CLICK\<rparr>,
        running = True,
        pyautogui = \<lparr>calls = [mouseDown Left_button, mouseDown Left_button, mouseDown Left_button,
                               mouseDown Left_button, mouseDown Left_button, mouseDown Left_button,
                               mouseDown Left_button, mouseDown Left_button, mouseDown Left_button,
                               mouseDown Left_button],
                     raises = always_raises\<rparr>\<rparr>
       (Some ''space'')))
   \<and> error_count (system_state (handle_keyboard_input
       \<lparr>system_state = \<lparr>pose_control_enabled = False, current_control_state = LEFT_CLICK,
                         last_valid_angle = Some 180, error_count = 6\<rparr>,
        pose_detector = \<lparr>confidence_threshold = 1/2\<rparr>,
        mouse_controller = \<lparr>mc_current_state = NEUTRAL, mc_error_count = 10, mc_max_errors = 5\<rparr>,
        angle_calculator = \<lparr>last_state = Some LEFT_CLICK\<rparr>,
        running = True,
        pyautogui = \<lparr>calls = [mouseDown Left_button, mouseDown Left_button, mouseDown Left_button,
                               mouseDown Left_button, mouseDown Left_button, mouseDown Left_button,
                               mouseDown Left_button, mouseDown Left_button, mouseDown Left_button,
                               mouseDown Left_button],
                     raises = always_raises\<rparr>\<rparr>
       (Some ''space''))) = 6
   \<and> fst (set_state
       \<lparr>mc_current_state = LEFT_CLICK, mc_error_count = 4, mc_max_errors = 5\<rparr> NEUTRAL
       \<lparr>calls = [mouseDown Left_button, mouseUp Left_button, mouseUp Left_button,
                 mouseUp Left_button, mouseUp Left_button],
        raises = raises_after_first\<rparr>) = Inl MouseControlError
   \<and> error_count (system_state (set_neutral_state
       \<lparr>system_state = \<lparr>pose_control_enabled = True, current_control_state = LEFT_CLICK,
                         last_valid_angle = Some 180, error_count = 0\<rparr>,
        pose_detector = \<lparr>confidence_threshold = 1/2\<rparr>,
        mouse_controller = \<lparr>mc_current_state = LEFT_CLICK, mc_error_count = 4, mc_max_errors = 5\<rparr>,
        angle_calculator = \<lparr>last_state = Some LEFT_CLICK\<rparr>,
        running = True,
        pyautogui = \<lparr>calls = [mouseDown Left_button, mouseUp Left_button, mouseUp Left_button,
                               mouseUp Left_button, mouseUp Left_button],
                     raises = raises_after_first\<rparr>\<rparr>)) = 0"
  by (simp add: handle_keyboard_input_def toggle_pose_control_def set_neutral_state_def
      set_state_def transition_to_state_def pyautogui_call_def raises_after_first_def Let_def)

text \<open>
  C8, amended. A \<^verbatim>\<open>set_state\<close> call made by \<^verbatim>\<open>_update_mouse_control\<close> increments the
  loop's error counter when it raises and sets it to 0 when it returns; the
  \<^verbatim>\<open>set_state\<close> call of the NEUTRAL fallback leaves the counter as it is. Control is
  switched off as soon as the incremented counter exceeds 5. Once off, no frame switches
  it on again, nor does any key other than the toggle and the reset: the toggle flips
  the flag and keeps the counter and the classifier; the reset sets the loop's counter
  and the mouse controller's counter to 0 and switches control on, leaving the
  classifier as it was.
\<close>

theorem C8_error_counter_amended:
  "error_count (system_state (update_mouse_control self cs)) =
     (if isl (fst (set_state (mouse_controller self) cs (pyautogui self)))
      then error_count (system_state self) + 1 else 0)
   \<and> error_count (system_state (set_neutral_state self)) = error_count (system_state self)
   \<and> pose_control_enabled (system_state (update_mouse_control self cs)) =
     (if isl (fst (set_state (mouse_controller self) cs (pyautogui self)))
         \<and> error_count (system_state self) + 1 > 5
      then False else pose_control_enabled (system_state self))
   \<and> (\<not> pose_control_enabled (system_state self) \<longrightarrow>
        \<not> pose_control_enabled (system_state (snd (process_frame calc self frame))))
   \<and> (key \<noteq> Some ''space'' \<and> key \<noteq> Some ''r'' \<longrightarrow>
        pose_control_enabled (system_state (handle_keyboard_input self key)) =
          pose_control_enabled (system_state self))
   \<and> pose_control_enabled (system_state (handle_keyboard_input self (Some ''space''))) =
        (\<not> pose_control_enabled (system_state self))
   \<and> error_count (system_state (handle_keyboard_input self (Some ''space''))) =
        error_count (system_state self)
   \<and> angle_calculator (handle_keyboard_input self (Some ''space'')) = angle_calculator self
   \<and> error_count (system_state (handle_keyboard_input self (Some ''r''))) = 0
   \<and> mc_error_count (mouse_controller (handle_keyboard_input self (Some ''r''))) = 0
   \<and> pose_control_enabled (system_state (handle_keyboard_input self (Some ''r'')))
   \<and> angle_calculator (handle_keyboard_input self (Some ''r'')) = angle_calculator self"
proof (intro conjI impI)
  show "error_count (system_state (update_mouse_control self cs)) =
     (if isl (fst (set_state (mouse_controller self) cs (pyautogui self)))
      then error_count (system_state self) + 1 else 0)"
    by (rule update_mouse_control_error_count)
next
  show "error_count (system_state (set_neutral_state self)) = error_count (system_state self)"
    by (rule set_neutral_state_error_count)
next
  show "pose_control_enabled (system_state (update_mouse_control self cs)) =
     (if isl (fst (set_state (mouse_controller self) cs (pyautogui self)))
         \<and> error_count (system_state self) + 1 > 5
      then False else pose_control_enabled (system_state self))"
    by (rule update_mouse_control_enabled)
next
  assume "\<not> pose_control_enabled (system_state self)"
  then show "\<not> pose_control_enabled (system_state (snd (process_frame calc self frame)))"
    by (rule process_frame_keeps_disabled)
next
  assume "key \<noteq> Some ''space'' \<and> key \<noteq> Some ''r''"
  then show "pose_control_enabled (system_state (handle_keyboard_input self key)) =
      pose_control_enabled (system_state self)"
    by (simp add: handle_keyboard_input_def)
next
  show "pose_control_enabled (system_state (handle_keyboard_input self (Some ''space''))) =
        (\<not> pose_control_enabled (system_state self))"
    by (simp only: handle_keyboard_input_toggle toggle_pose_control_enabled)
next
  show "error_count (system_state (handle_keyboard_input self (Some ''space''))) =
        error_count (system_state self)"
    by (simp only: handle_keyboard_input_toggle toggle_pose_control_keeps)
next
  show "angle_calculator (handle_keyboard_input self (Some ''space'')) = angle_calculator self"
    by (simp only: handle_keyboard_input_toggle toggle_pose_control_keeps)
next
  show "error_count (system_state (handle_keyboard_input self (Some ''r''))) = 0"
    by (simp add: handle_keyboard_input_reset)
next
  show "mc_error_count (mouse_controller (handle_keyboard_input self (Some ''r''))) = 0"
    by (simp add: handle_keyboard_input_reset reset_error_count_def)
next
  show "pose_control_enabled (system_state (handle_keyboard_input self (Some ''r'')))"
    by (simp add: handle_keyboard_input_reset)
next
  show "angle_calculator (handle_keyboard_input self (Some ''r'')) = angle_calculator self"
    by (simp add: handle_keyboard_input_reset)
qed

theorem C8_error_counter_witness:
  "\<not> pose_control_enabled (system_state
       \<lparr>system_state = \<lparr>pose_control_enabled = False, current_control_state = LEFT_CLICK,
                         last_valid_angle = Some 180, error_count = 6\<rparr>,
        pose_detector = \<lparr>confidence_threshold = 1/2\<rparr>,
        mouse_controller = \<lparr>mc_current_state = NEUTRAL, mc_error_count = 10, mc_max_errors = 5\<rparr>,
        angle_calculator = \<lparr>last_state = Some LEFT_CLICK\<rparr>,
        running = True,
        pyautogui = \<lparr>calls = [mouseDown Left_button, mouseDown Left_button, mouseDown Left_button,
                               mouseDown Left_button, mouseDown Left_button, mouseDown Left_button,
                               mouseDown Left_button, mouseDown Left_button, mouseDown Left_button,
                               mouseDown Left_button],
                     raises = always_raises\<rparr>\<rparr>)
   \<and> \<not> pose_control_enabled (system_state (snd (process_frame (constant_engine 180)
       \<lparr>system_state = \<lparr>pose_control_enabled = False, current_control_state = LEFT_CLICK,
                         last_valid_angle = Some 180, error_count = 6\<rparr>,
        pose_detector = \<lparr>confidence_threshold = 1/2\<rparr>,
        mouse_controller = \<lparr>mc_current_state = NEUTRAL, mc_error_count = 10, mc_max_errors = 5\<rparr>,
        angle_calculator = \<lparr>last_state = Some LEFT_CLICK\<rparr>,
        running = True,
        pyautogui = \<lparr>calls = [mouseDown Left_button, mouseDown Left_button, mouseDown Left_button,
                               mouseDown Left_button, mouseDown Left_button, mouseDown Left_button,
                               mouseDown Left_button, mouseDown Left_button, mouseDown Left_button,
                               mouseDown Left_button],
                     raises = always_raises\<rparr>\<rparr>
       (pose_frame visible_pose))))
   \<and> \<not> pose_control_enabled (system_state (handle_keyboard_input
       \<lparr>system_state = \<lparr>pose_control_enabled = False, current_control_state = LEFT_CLICK,
                         last_valid_angle = Some 180, error_count = 6\<rparr>,
        pose_detector = \<lparr>confidence_threshold = 1/2\<rparr>,
        mouse_controller = \<lparr>mc_current_state = NEUTRAL, mc_error_count = 10, mc_max_errors = 5\<rparr>,
        angle_calculator = \<lparr>last_state = Some LEFT_CLICK\<rparr>,
        running = True,
        pyautogui = \<lparr>calls = [mouseDown Left_button, mouseDown Left_button, mouseDown Left_button,
                               mouseDown Left_button, mouseDown Left_button, mouseDown Left_button,
                               mouseDown Left_button, mouseDown Left_button, mouseDown Left_button,
                               mouseDown Left_button],
                     raises = always_raises\<rparr>\<rparr>
       None))
   \<and> error_count (system_state (update_mouse_control
       \<lparr>system_state = \<lparr>pose_control_enabled = False, current_control_state = LEFT_CLICK,
                         last_valid_angle = Some 180, error_count = 6\<rparr>,
        pose_detector = \<lparr>confidence_threshold = 1/2\<rparr>,
        mouse_controller = \<lparr>mc_current_state = NEUTRAL, mc_error_count = 10, mc_max_errors = 5\<rparr>,
        angle_calculator = \<lparr>last_state = Some LEFT_CLICK\<rparr>,
        running = True,
        pyautogui = \<lparr>calls = [mouseDown Left_button, mouseDown Left_button, mouseDown Left_button,
                               mouseDown Left_button, mouseDown Left_button, mouseDown Left_button,
                               mouseDown Left_button, mouseDown Left_button, mouseDown Left_button,
                               mouseDown Left_button],
                     raises = always_raises\<rparr>\<rparr>
       LEFT_CLICK)) = 7"
  using C8_error_counter_amended [where calc = "constant_engine 180"
      and frame = "pose_frame visible_pose" and cs = LEFT_CLICK and key = None
      and self = "\<lparr>system_state = \<lparr>pose_control_enabled = False, current_control_state = LEFT_CLICK,
                         last_valid_angle = Some 180, error_count = 6\<rparr>,
        pose_detector = \<lparr>confidence_threshold = 1/2\<rparr>,
        mouse_controller = \<lparr>mc_current_state = NEUTRAL, mc_error_count = 10, mc_max_errors = 5\<rparr>,
        angle_calculator = \<lparr>last_state = Some LEFT_CLICK\<rparr>,
        running = True,
        pyautogui = \<lparr>calls = [mouseDown Left_button, mouseDown Left_button, mouseDown Left_button,
                               mouseDown Left_button, mouseDown Left_button, mouseDown Left_button,
                               mouseDown Left_button, mouseDown Left_button, mouseDown Left_button,
                               mouseDown Left_button],
                     raises = always_raises\<rparr>\<rparr>"]
  by (simp add: set_state_def transition_to_state_def pyautogui_call_def always_raises_def Let_def)

end
